theory Spec2Isabelle
  imports Complex_Main
begin

section \<open>The echo templates: messages, runtime boundary, workload\<close>

text \<open>
  The templates \<^verbatim>\<open>templates/python/echo/client.py\<close> and \<^verbatim>\<open>server.py\<close> are asynchronous
  Python over the external \<^verbatim>\<open>actr\<close> runtime. In this part a Python \<^verbatim>\<open>str\<close> is carried as
  the bytes of its UTF-8 encoding, so \<^verbatim>\<open>+\<close> is \<open>@\<close> and \<^verbatim>\<open>!=\<close> is \<open>\<noteq>\<close>; \<^verbatim>\<open>bytes\<close> are
  byte lists as well.
\<close>

type_synonym bytes = string

record EchoRequest =
  message :: string

record EchoResponse =
  reply :: string
  timestamp :: int

text \<open>
  The generated module \<^verbatim>\<open>echo_pb2\<close> is not part of the sources. The dispatcher uses three
  of its operations; they are a parameter of the model. \<open>None\<close> from a \<open>FromString\<close> is
  protobuf's \<^verbatim>\<open>DecodeError\<close>.
\<close>

record pb2 =
  EchoRequest_FromString :: "bytes \<Rightarrow> EchoRequest option"
  EchoResponse_FromString :: "bytes \<Rightarrow> EchoResponse option"
  EchoResponse_SerializeToString :: "EchoResponse \<Rightarrow> bytes"

datatype ActrType = ActrType string string

datatype ActrId = ActrId string

datatype Dest = Dest_actor ActrId

datatype exn =
    RuntimeError string
  | DecodeError
  | ActrRuntimeError string

text \<open>
  What an awaited coroutine does: it returns, it raises, or it stays suspended
  (\<open>Pending\<close>) because the event it waits for is not set.
\<close>

datatype 'a outcome = Returned 'a | Raised exn | Pending

text \<open>
  The runtime's \<^verbatim>\<open>Context\<close>: \<^verbatim>\<open>discover\<close> returns an identity or raises, \<^verbatim>\<open>call\<close> returns
  the response bytes or raises (\<open>Inl\<close> carries the exception).
\<close>

record Context =
  discover :: "ActrType \<Rightarrow> exn + ActrId"
  call :: "Dest \<Rightarrow> string \<Rightarrow> EchoRequest \<Rightarrow> exn + bytes"

datatype loglevel = Info | Error

datatype logarg = ArgStr string | ArgErr string | ArgId ActrId

text \<open>The observable actions of a hook or a dispatch, in program order.\<close>

datatype effect =
    Log loglevel string "logarg list"
  | Discover ActrType
  | ReadySet
  | ReadyWait
  | Call Dest string EchoRequest

text \<open>\<^verbatim>\<open>asyncio.Event\<close>: a flag; \<^verbatim>\<open>set()\<close> makes it true whatever it was.\<close>

type_synonym Event = bool

definition Event_new :: Event where
  "Event_new = False"

definition Event_set :: "Event \<Rightarrow> Event" where
  "Event_set e = True"

record EchoClientWorkload =
  server_type :: ActrType
  server_id :: "ActrId option"
  ready :: Event

text \<open>\<^verbatim>\<open>EchoClientWorkload.__init__\<close>\<close>

definition EchoClientWorkload_init :: EchoClientWorkload where
  "EchoClientWorkload_init =
     \<lparr>server_type = ActrType ''acme'' ''EchoService'', server_id = None, ready = Event_new\<rparr>"

text \<open>
  \<^verbatim>\<open>EchoClientDispatcher.dispatch\<close>. The result is the outcome, the workload object after
  the call and the actions performed. Wrapping \<^verbatim>\<open>ctx\<close> into a \<^verbatim>\<open>Context\<close> (lines 23-24) is
  the identity here: \<open>ctx\<close> already is the wrapped handle.
\<close>

definition dispatch ::
  "pb2 \<Rightarrow> EchoClientWorkload \<Rightarrow> string \<Rightarrow> bytes \<Rightarrow> Context
     \<Rightarrow> bytes outcome \<times> EchoClientWorkload \<times> effect list" where
  "dispatch pb workload route_key payload ctx =
     (if route_key \<noteq> ''echo.EchoService.Echo''
      then (Raised (RuntimeError (''Unknown route_key: '' @ route_key)), workload, [])
      else
        (case EchoRequest_FromString pb payload of
           None \<Rightarrow> (Raised DecodeError, workload, [])
         | Some request \<Rightarrow>
             (if \<not> ready workload then (Pending, workload, [ReadyWait])
              else
                (case server_id workload of
                   None \<Rightarrow>
                     (Returned (EchoResponse_SerializeToString pb
                        \<lparr>reply = ''server not available'', timestamp = 0\<rparr>),
                      workload, [ReadyWait])
                 | Some sid \<Rightarrow>
                     (case call ctx (Dest_actor sid) ''echo.EchoService.Echo'' request of
                        Inl e \<Rightarrow>
                          (Raised e, workload,
                           [ReadyWait, Call (Dest_actor sid) ''echo.EchoService.Echo'' request])
                      | Inr response_bytes \<Rightarrow>
                          (case EchoResponse_FromString pb response_bytes of
                             None \<Rightarrow>
                               (Raised DecodeError, workload,
                                [ReadyWait,
                                 Call (Dest_actor sid) ''echo.EchoService.Echo'' request])
                           | Some response \<Rightarrow>
                               (Returned (EchoResponse_SerializeToString pb response),
                                workload,
                                [ReadyWait,
                                 Call (Dest_actor sid) ''echo.EchoService.Echo'' request])))))))"

text \<open>
  \<^verbatim>\<open>EchoClientWorkload.on_start\<close>. The \<^verbatim>\<open>except\<close> clause names \<^verbatim>\<open>ActrRuntimeError\<close>: any other
  exception of \<^verbatim>\<open>discover\<close> leaves the hook as it is, before \<^verbatim>\<open>ready.set()\<close>.
\<close>


definition on_start ::
  "EchoClientWorkload \<Rightarrow> Context \<Rightarrow> unit outcome \<times> EchoClientWorkload \<times> effect list" where
  "on_start self ctx =
     (case discover ctx (server_type self) of
        Inl x \<Rightarrow>
          (case x of
             ActrRuntimeError e \<Rightarrow>
               (Returned (), self\<lparr>ready := Event_set (ready self)\<rparr>,
                [Log Info ''discovering echo service...'' [], Discover (server_type self),
                 Log Error ''discover failed: %s'' [ArgErr e], ReadySet])
           | _ \<Rightarrow>
               (Raised x, self,
                [Log Info ''discovering echo service...'' [], Discover (server_type self)]))
      | Inr sid \<Rightarrow>
          (Returned (), self\<lparr>server_id := Some sid, ready := Event_set (ready self)\<rparr>,
           [Log Info ''discovering echo service...'' [], Discover (server_type self),
            ReadySet, Log Info ''discovered server: %s'' [ArgId sid]]))"

text \<open>\<^verbatim>\<open>EchoClientWorkload.on_stop\<close>\<close>

definition on_stop ::
  "EchoClientWorkload \<Rightarrow> Context \<Rightarrow> unit outcome \<times> EchoClientWorkload \<times> effect list" where
  "on_stop self ctx = (Returned (), self, [Log Info ''EchoClientWorkload on_stop'' []])"

text \<open>
  The operations the runtime runs on one workload object, and the object after any
  sequence of them.
\<close>

datatype operation =
    OnStart Context
  | OnStop Context
  | Dispatch string bytes Context

fun step :: "pb2 \<Rightarrow> EchoClientWorkload \<Rightarrow> operation \<Rightarrow> EchoClientWorkload" where
  "step pb w (OnStart ctx) = fst (snd (on_start w ctx))"
| "step pb w (OnStop ctx) = fst (snd (on_stop w ctx))"
| "step pb w (Dispatch route_key payload ctx) = fst (snd (dispatch pb w route_key payload ctx))"

definition run :: "pb2 \<Rightarrow> EchoClientWorkload \<Rightarrow> operation list \<Rightarrow> EchoClientWorkload" where
  "run pb w ops = foldl (step pb) w ops"

text \<open>
  \<^verbatim>\<open>int(x)\<close> on a float: truncation towards zero. \<^verbatim>\<open>time.time()\<close> is the clock reading
  \<open>now\<close>, in seconds since the epoch.
\<close>

definition py_int :: "real \<Rightarrow> int" where
  "py_int x = (if 0 \<le> x then \<lfloor>x\<rfloor> else \<lceil>x\<rceil>)"

text \<open>\<^verbatim>\<open>EchoService.echo\<close> (server.py)\<close>

definition echo :: "EchoRequest \<Rightarrow> real \<Rightarrow> EchoResponse \<times> effect list" where
  "echo req now =
     (\<lparr>reply = ''Echo: '' @ message req, timestamp = py_int now\<rparr>,
      [Log Info ''server received: %s'' [ArgStr (message req)]])"

subsection \<open>A concrete codec and runtime\<close>

text \<open>
  Modelled from the spec: the generated \<^verbatim>\<open>echo_pb2\<close> module and the \<^verbatim>\<open>actr\<close> runtime are
  missing from the sources. The spec names the payloads \<open>{message}\<close> and
  \<open>{reply, timestamp}\<close> and leaves their encoding to the schema tooling; \<open>echo_pb2\<close> below
  is protobuf's wire format for them (proto3: field 1 the string, field 2 the
  timestamp as a 64-bit varint, default values not written, unknown fields skipped,
  the last occurrence of a field wins). It is a stand-in, not the generated code: the
  deprecated group wire types are rejected, a varint may be longer than ten bytes, and
  a string is kept as its bytes without the UTF-8 check.
  The theorems quantify over every codec; this one gives them concrete inputs.
\<close>

function encode_varint :: "nat \<Rightarrow> bytes" where
  "encode_varint n =
     (if n < 128 then [char_of n]
      else char_of (128 + n mod 128) # encode_varint (n div 128))"
  by pat_completeness auto
termination
  by (relation "measure id") auto

declare encode_varint.simps [simp del]

fun decode_varint :: "bytes \<Rightarrow> (nat \<times> bytes) option" where
  "decode_varint [] = None"
| "decode_varint (b # bs) =
     (if (of_char b :: nat) < 128 then Some (of_char b, bs)
      else
        (case decode_varint bs of
           None \<Rightarrow> None
         | Some (v, rest) \<Rightarrow> Some (of_char b - 128 + 128 * v, rest)))"

datatype wire_value = Varint nat | Len bytes | I64 bytes | I32 bytes

definition take_exact :: "nat \<Rightarrow> bytes \<Rightarrow> (bytes \<times> bytes) option" where
  "take_exact n bs = (if length bs < n then None else Some (take n bs, drop n bs))"

definition read_value :: "nat \<Rightarrow> bytes \<Rightarrow> (wire_value \<times> bytes) option" where
  "read_value wire_type bs =
     (if wire_type = 0 then
        (case decode_varint bs of None \<Rightarrow> None | Some (v, rest) \<Rightarrow> Some (Varint v, rest))
      else if wire_type = 1 then
        (case take_exact 8 bs of None \<Rightarrow> None | Some (v, rest) \<Rightarrow> Some (I64 v, rest))
      else if wire_type = 2 then
        (case decode_varint bs of
           None \<Rightarrow> None
         | Some (n, rest) \<Rightarrow>
             (case take_exact n rest of
                None \<Rightarrow> None
              | Some (v, rest') \<Rightarrow> Some (Len v, rest')))
      else if wire_type = 5 then
        (case take_exact 4 bs of None \<Rightarrow> None | Some (v, rest) \<Rightarrow> Some (I32 v, rest))
      else None)"

lemma decode_varint_shorter:
  "decode_varint bs = Some (v, rest) \<Longrightarrow> length rest < length bs"
  by (induction bs arbitrary: v rest) (auto split: if_splits option.splits)

lemma take_exact_shorter:
  "take_exact n bs = Some (v, rest) \<Longrightarrow> length rest \<le> length bs"
  by (auto simp: take_exact_def split: if_splits)

lemma read_value_shorter:
  "read_value t bs = Some (v, rest) \<Longrightarrow> length rest \<le> length bs"
  by (auto simp: read_value_def split: if_splits option.splits
      dest!: decode_varint_shorter take_exact_shorter)

function parse_fields :: "bytes \<Rightarrow> (nat \<times> wire_value) list option" where
  "parse_fields bs =
     (if bs = [] then Some []
      else
        (case decode_varint bs of
           None \<Rightarrow> None
         | Some (tag, rest) \<Rightarrow>
             (case read_value (tag mod 8) rest of
                None \<Rightarrow> None
              | Some (v, rest') \<Rightarrow>
                  (if tag div 8 = 0 then None
                   else
                     (case parse_fields rest' of
                        None \<Rightarrow> None
                      | Some flds \<Rightarrow> Some ((tag div 8, v) # flds))))))"
  by pat_completeness auto
termination
proof (relation "measure length", goal_cases)
  case 1
  show ?case by simp
next
  case (2 bs x2 tag rest x2a v rest')
  from 2 have "length rest < length bs" "length rest' \<le> length rest"
    by (auto dest: decode_varint_shorter read_value_shorter)
  then show ?case by simp
qed

fun string_field :: "nat \<Rightarrow> (nat \<times> wire_value) list \<Rightarrow> string \<Rightarrow> string" where
  "string_field k [] d = d"
| "string_field k ((k', Len v) # flds) d =
     (if k' = k then string_field k flds v else string_field k flds d)"
| "string_field k (_ # flds) d = string_field k flds d"

definition int64_of :: "nat \<Rightarrow> int" where
  "int64_of v =
     (let u = int (v mod 2 ^ 64) in if u < 2 ^ 63 then u else u - 2 ^ 64)"

fun int64_field :: "nat \<Rightarrow> (nat \<times> wire_value) list \<Rightarrow> int \<Rightarrow> int" where
  "int64_field k [] d = d"
| "int64_field k ((k', Varint v) # flds) d =
     (if k' = k then int64_field k flds (int64_of v) else int64_field k flds d)"
| "int64_field k (_ # flds) d = int64_field k flds d"

definition echo_pb2 :: pb2 where
  "echo_pb2 =
     \<lparr>EchoRequest_FromString =
        (\<lambda>payload.
           case parse_fields payload of
             None \<Rightarrow> None
           | Some flds \<Rightarrow> Some \<lparr>message = string_field 1 flds []\<rparr>),
      EchoResponse_FromString =
        (\<lambda>payload.
           case parse_fields payload of
             None \<Rightarrow> None
           | Some flds \<Rightarrow>
               Some \<lparr>reply = string_field 1 flds [], timestamp = int64_field 2 flds 0\<rparr>),
      EchoResponse_SerializeToString =
        (\<lambda>response.
           (if reply response = [] then []
            else CHR 0x0A # encode_varint (length (reply response)) @ reply response) @
           (if timestamp response = 0 then []
            else CHR 0x10 # encode_varint (nat (timestamp response mod 2 ^ 64))))\<rparr>"

text \<open>
  Modelled from the spec: the runtime seen from the client, with at most one echo
  server registered for the type \<open>("acme", "EchoService")\<close>. \<open>discover\<close> fails with a
  discovery error when there is no registrant; \<open>call\<close> fails with "unreachable
  destination" for any other identity, forwards the route key to the destination's
  dispatcher, and that one runs \<open>echo\<close> at clock reading \<open>now\<close> for the route it knows.
\<close>

definition echo_runtime :: "ActrId option \<Rightarrow> real \<Rightarrow> Context" where
  "echo_runtime server now =
     \<lparr>discover =
        (\<lambda>ty.
           case server of
             None \<Rightarrow> Inl (ActrRuntimeError ''discovery error'')
           | Some b \<Rightarrow>
               if ty = ActrType ''acme'' ''EchoService'' then Inr b
               else Inl (ActrRuntimeError ''discovery error'')),
      call =
        (\<lambda>dest route_key request.
           if Some dest \<noteq> map_option Dest_actor server
           then Inl (ActrRuntimeError ''unreachable destination'')
           else if route_key \<noteq> ''echo.EchoService.Echo''
           then Inl (ActrRuntimeError ''unrecognized route'')
           else Inr (EchoResponse_SerializeToString echo_pb2 (fst (echo request now))))\<rparr>"

section \<open>The formula update script\<close>

text \<open>
  \<^verbatim>\<open>scripts/update-brew-formula.py\<close> works on the characters of a text: whitespace and line
  boundaries are properties of code points. In this part a Python \<^verbatim>\<open>str\<close> is the list of
  its code points.
\<close>

type_synonym pystr = "nat list"

definition str :: "string \<Rightarrow> pystr" where
  "str cs = map of_char cs"

definition dquote :: pystr where
  "dquote = [34]"

text \<open>\<^verbatim>\<open>str.isspace\<close> of one character, which is also what \<^verbatim>\<open>\s\<close> matches in a str pattern.\<close>

definition isspace :: "nat \<Rightarrow> bool" where
  "isspace c =
     ((9 \<le> c \<and> c \<le> 13) \<or> (28 \<le> c \<and> c \<le> 32) \<or> c = 133 \<or> c = 160 \<or> c = 5760 \<or>
      (8192 \<le> c \<and> c \<le> 8202) \<or> c = 8232 \<or> c = 8233 \<or> c = 8239 \<or> c = 8287 \<or>
      c = 12288)"

text \<open>The line boundaries of \<^verbatim>\<open>str.splitlines\<close>; CR LF counts as one.\<close>

definition is_linebreak :: "nat \<Rightarrow> bool" where
  "is_linebreak c =
     ((10 \<le> c \<and> c \<le> 13) \<or> (28 \<le> c \<and> c \<le> 30) \<or> c = 133 \<or> c = 8232 \<or> c = 8233)"

fun splitlines_from :: "pystr \<Rightarrow> pystr \<Rightarrow> pystr list" where
  "splitlines_from cur [] = (if cur = [] then [] else [cur])"
| "splitlines_from cur [c] =
     (if is_linebreak c then [cur] else [cur @ [c]])"
| "splitlines_from cur (c # d # cs) =
     (if c = 13 \<and> d = 10 then cur # splitlines_from [] cs
      else if is_linebreak c then cur # splitlines_from [] (d # cs)
      else splitlines_from (cur @ [c]) (d # cs))"

definition splitlines :: "pystr \<Rightarrow> pystr list" where
  "splitlines text = splitlines_from [] text"

text \<open>\<^verbatim>\<open>"\n".join(lines)\<close>\<close>

fun join_lines :: "pystr list \<Rightarrow> pystr" where
  "join_lines [] = []"
| "join_lines [l] = l"
| "join_lines (l # ls) = l @ [10] @ join_lines ls"

definition startswith :: "pystr \<Rightarrow> pystr \<Rightarrow> bool" where
  "startswith s p = (take (length p) s = p)"

text \<open>\<^verbatim>\<open>sub in s\<close>\<close>

fun contains :: "pystr \<Rightarrow> pystr \<Rightarrow> bool" where
  "contains sub [] = (sub = [])"
| "contains sub (c # cs) = (startswith (c # cs) sub \<or> contains sub cs)"

definition lstrip :: "pystr \<Rightarrow> pystr" where
  "lstrip s = dropWhile isspace s"

text \<open>\<^verbatim>\<open>s.lstrip(chars)\<close>\<close>

definition lstrip_chars :: "pystr \<Rightarrow> pystr \<Rightarrow> pystr" where
  "lstrip_chars chars s = dropWhile (\<lambda>c. c \<in> set chars) s"

definition strip :: "pystr \<Rightarrow> pystr" where
  "strip s = rev (dropWhile isspace (rev (dropWhile isspace s)))"

text \<open>\<^verbatim>\<open>s.split()\<close>: the maximal runs of non-whitespace.\<close>

fun split_from :: "pystr \<Rightarrow> pystr \<Rightarrow> pystr list" where
  "split_from cur [] = (if cur = [] then [] else [cur])"
| "split_from cur (c # cs) =
     (if isspace c then (if cur = [] then split_from [] cs else cur # split_from [] cs)
      else split_from (cur @ [c]) cs)"

definition split_whitespace :: "pystr \<Rightarrow> pystr list" where
  "split_whitespace s = split_from [] s"

datatype path = Path pystr | Slash path pystr

datatype py_error =
    FileNotFoundError path
  | ValueError pystr
  | IndexError
  | KeyError pystr
  | AttributeError
  | TemplateError

text \<open>
  The file system as the script reads it: whether a path exists, and what reading it as
  text gives (the text or the error raised).
\<close>

record filesystem =
  exists :: "path \<Rightarrow> bool"
  read_text :: "path \<Rightarrow> py_error + pystr"

text \<open>\<^verbatim>\<open>read_sha\<close>\<close>

definition read_sha :: "filesystem \<Rightarrow> path \<Rightarrow> pystr \<Rightarrow> py_error + pystr" where
  "read_sha fs dist_dir asset_name =
     (let sha_path = Slash dist_dir (asset_name @ str ''.sha256'') in
      if \<not> exists fs sha_path then Inl (FileNotFoundError sha_path)
      else
        (case read_text fs sha_path of
           Inl e \<Rightarrow> Inl e
         | Inr content \<Rightarrow>
             (case split_whitespace (strip content) of
                [] \<Rightarrow> Inl IndexError
              | first # _ \<Rightarrow> Inr first)))"

text \<open>
  \<^verbatim>\<open>re.match(r"(\s*)kw", line)\<close> and its group 1: the greedy \<^verbatim>\<open>\s*\<close> takes the whole
  leading whitespace, and giving some back cannot help, since \<open>kw\<close> does not start with
  whitespace. \<open>None\<close> is no match.
\<close>

definition re_match_indent :: "pystr \<Rightarrow> pystr \<Rightarrow> pystr option" where
  "re_match_indent kw line =
     (if startswith (dropWhile isspace line) kw then Some (takeWhile isspace line) else None)"

text \<open>
  The loops \<^verbatim>\<open>for j in range(start, len(lines))\<close> that stop at the first line with the
  property: the index found, or \<open>None\<close> when the loop runs out.
\<close>

function find_line :: "(pystr \<Rightarrow> bool) \<Rightarrow> pystr list \<Rightarrow> nat \<Rightarrow> nat option" where
  "find_line P lines j =
     (if j < length lines
      then (if P (lines ! j) then Some j else find_line P lines (Suc j))
      else None)"
  by pat_completeness auto
termination
  by (relation "measure (\<lambda>(P, lines, j). length lines - j)") auto

declare find_line.simps [simp del]

text \<open>\<^verbatim>\<open>replace_after_marker\<close>\<close>

definition replace_after_marker :: "pystr \<Rightarrow> pystr \<Rightarrow> pystr \<Rightarrow> pystr \<Rightarrow> py_error + pystr" where
  "replace_after_marker text marker url sha =
     (let lines = splitlines text in
      case find_line (contains marker) lines 0 of
        None \<Rightarrow> Inl (ValueError (str ''Marker not found: '' @ marker))
      | Some i \<Rightarrow>
          (case find_line (\<lambda>l. startswith (lstrip l) (str ''url '')) lines (i + 1) of
             None \<Rightarrow> Inl (ValueError (str ''url line not found after marker: '' @ marker))
           | Some j \<Rightarrow>
               (case re_match_indent (str ''url'') (lines ! j) of
                  None \<Rightarrow> Inl AttributeError
                | Some indent \<Rightarrow>
                    (let lines = lines[j := indent @ str ''url '' @ dquote @ url @ dquote] in
                     case find_line (\<lambda>l. startswith (lstrip l) (str ''sha256 '')) lines (j + 1) of
                       None \<Rightarrow>
                         Inl (ValueError (str ''sha256 line not found after marker: '' @ marker))
                     | Some k \<Rightarrow>
                         (case re_match_indent (str ''sha256'') (lines ! k) of
                            None \<Rightarrow> Inl AttributeError
                          | Some indent \<Rightarrow>
                              Inr (join_lines
                                (lines[k := indent @ str ''sha256 '' @ dquote @ sha @ dquote])))))))"

subsection \<open>The version substitution\<close>

















subsection \<open>main\<close>

record args =
  arg_formula :: pystr
  arg_version :: pystr
  arg_repo :: pystr
  arg_dist :: pystr

text \<open>\<^verbatim>\<open>version = args.version.lstrip("v")\<close> and \<^verbatim>\<open>tag = f"v{version}"\<close>\<close>

definition normalized_version :: "pystr \<Rightarrow> pystr" where
  "normalized_version v = lstrip_chars (str ''v'') v"

definition release_tag :: "pystr \<Rightarrow> pystr" where
  "release_tag version = str ''v'' @ version"

definition targets :: "(pystr \<times> pystr) list" where
  "targets =
     [(str ''macos-arm64'', str ''aarch64-apple-darwin''),
      (str ''linux-x86_64'', str ''x86_64-unknown-linux-gnu'')]"

definition asset_name :: "pystr \<Rightarrow> pystr \<Rightarrow> pystr" where
  "asset_name version target = str ''actr-'' @ version @ str ''-'' @ target @ str ''.tar.gz''"

definition asset_url :: "pystr \<Rightarrow> pystr \<Rightarrow> pystr \<Rightarrow> pystr" where
  "asset_url repo tag asset =
     str ''https://github.com/'' @ repo @ str ''/releases/download/'' @ tag @ str ''/'' @ asset"

record asset_entry =
  entry_asset :: pystr
  entry_url :: pystr
  entry_sha :: pystr

text \<open>The loop over \<^verbatim>\<open>targets.items()\<close> that fills \<^verbatim>\<open>assets\<close>, in the order of the dict.\<close>

fun build_assets ::
  "filesystem \<Rightarrow> path \<Rightarrow> pystr \<Rightarrow> pystr \<Rightarrow> pystr \<Rightarrow> (pystr \<times> pystr) list
     \<Rightarrow> py_error + (pystr \<times> asset_entry) list" where
  "build_assets fs dist_dir repo version tag [] = Inr []"
| "build_assets fs dist_dir repo version tag ((label, target) # rest) =
     (let asset = asset_name version target in
      case read_sha fs dist_dir asset of
        Inl e \<Rightarrow> Inl e
      | Inr sha \<Rightarrow>
          (case build_assets fs dist_dir repo version tag rest of
             Inl e \<Rightarrow> Inl e
           | Inr assets \<Rightarrow>
               Inr ((label,
                     \<lparr>entry_asset = asset, entry_url = asset_url repo tag asset,
                        entry_sha = sha\<rparr>) # assets)))"

text \<open>
  \<^verbatim>\<open>main\<close>, after \<^verbatim>\<open>parse_args\<close>: the result (the exception raised or the return code) and
  the files written, in order, each with the text written.
\<close>

definition main ::
  "(pystr \<Rightarrow> pystr \<Rightarrow> py_error + pystr \<times> nat) \<Rightarrow> filesystem \<Rightarrow> args
     \<Rightarrow> (py_error + int) \<times> (path \<times> pystr) list" where
  "main subn fs args =
     (let version = normalized_version (arg_version args);
          tag = release_tag version;
          dist_dir = Path (arg_dist args);
          formula_path = Path (arg_formula args) in
      case read_text fs formula_path of
        Inl e \<Rightarrow> (Inl e, [])
      | Inr text \<Rightarrow>
          (case build_assets fs dist_dir (arg_repo args) version tag targets of
             Inl e \<Rightarrow> (Inl e, [])
           | Inr assets \<Rightarrow>
               (case subn version text of
                  Inl e \<Rightarrow> (Inl e, [])
                | Inr (text, count) \<Rightarrow>
                    (if count = 0
                     then (Inl (ValueError (str ''version line not found in formula'')), [])
                     else
                       (case map_of assets (str ''macos-arm64'') of
                          None \<Rightarrow> (Inl (KeyError (str ''macos-arm64'')), [])
                        | Some macos \<Rightarrow>
                            (case replace_after_marker text (str ''# TARGET: macos-arm64'')
                                    (entry_url macos) (entry_sha macos) of
                               Inl e \<Rightarrow> (Inl e, [])
                             | Inr text \<Rightarrow>
                                 (case map_of assets (str ''linux-x86_64'') of
                                    None \<Rightarrow> (Inl (KeyError (str ''linux-x86_64'')), [])
                                  | Some linux \<Rightarrow>
                                      (case replace_after_marker text
                                              (str ''# TARGET: linux-x86_64'')
                                              (entry_url linux) (entry_sha linux) of
                                         Inl e \<Rightarrow> (Inl e, [])
                                       | Inr text \<Rightarrow>
                                           (Inr 0, [(formula_path, text)])))))))))"



subsection \<open>Specification vocabulary and concrete inputs\<close>







section \<open>Unknown routes\<close>

text \<open>
  C1: for every route key other than "echo.EchoService.Echo", dispatch raises the
  unknown-route error naming the key, whatever the payload, the readiness and the peer;
  it neither suspends nor touches the workload, and issues no outbound call.
\<close>

theorem dispatch_unknown_route:
  "route_key \<noteq> ''echo.EchoService.Echo'' \<Longrightarrow>
     dispatch pb workload route_key payload ctx =
       (Raised (RuntimeError (''Unknown route_key: '' @ route_key)), workload, [])"
  by (simp add: dispatch_def)

theorem dispatch_unknown_route_witness:
  "''echo.EchoService.Ping'' \<noteq> ''echo.EchoService.Echo'' \<and>
   dispatch echo_pb2 EchoClientWorkload_init ''echo.EchoService.Ping'' [CHR 0xFF]
       (echo_runtime None 0) =
     (Raised (RuntimeError ''Unknown route_key: echo.EchoService.Ping''),
      EchoClientWorkload_init, [])"
proof -
  have h: "''echo.EchoService.Ping'' \<noteq> ''echo.EchoService.Echo''" by simp
  show ?thesis
    using h dispatch_unknown_route [OF h, of echo_pb2 EchoClientWorkload_init "[CHR 0xFF]"
        "echo_runtime None 0"]
    by simp
qed

section \<open>The degraded response\<close>

lemma hi_payload:
  "EchoRequest_FromString echo_pb2 [CHR 0x0A, CHR 0x02, CHR ''h'', CHR ''i''] =
     Some \<lparr>message = ''hi''\<rparr>"
  by (simp add: echo_pb2_def read_value_def take_exact_def)

text \<open>
  C2 as stated fails: the payload is parsed before the peer is looked at, so a payload
  that is not an EchoRequest (here the single byte 0xFF, a truncated varint) makes the
  dispatch raise although readiness is set and the peer is absent.
\<close>

theorem dispatch_degraded_counterexample:
  "dispatch echo_pb2 \<lparr>server_type = ActrType ''acme'' ''EchoService'', server_id = None, ready = True\<rparr>
     ''echo.EchoService.Echo'' [CHR 0xFF] (echo_runtime None 0) =
   (Raised DecodeError,
    \<lparr>server_type = ActrType ''acme'' ''EchoService'', server_id = None, ready = True\<rparr>, [])"
  by (simp add: dispatch_def echo_pb2_def)

text \<open>
  C2, amended: for every dispatch of route "echo.EchoService.Echo" whose payload parses
  as an EchoRequest, with readiness set and the peer absent, dispatch returns the
  serialized EchoResponse with reply "server not available" and timestamp 0; it neither
  suspends nor raises, and issues no outbound call.
\<close>

theorem dispatch_degraded:
  "EchoRequest_FromString pb payload = Some request \<Longrightarrow> ready workload \<Longrightarrow>
   server_id workload = None \<Longrightarrow>
     dispatch pb workload ''echo.EchoService.Echo'' payload ctx =
       (Returned (EchoResponse_SerializeToString pb
          \<lparr>reply = ''server not available'', timestamp = 0\<rparr>), workload, [ReadyWait])"
  by (simp add: dispatch_def)

theorem dispatch_degraded_witness:
  "dispatch echo_pb2 (fst (snd (on_start EchoClientWorkload_init (echo_runtime None 0))))
     ''echo.EchoService.Echo'' [CHR 0x0A, CHR 0x02, CHR ''h'', CHR ''i''] (echo_runtime None 0) =
   (Returned (CHR 0x0A # CHR 0x14 # ''server not available''),
    \<lparr>server_type = ActrType ''acme'' ''EchoService'', server_id = None, ready = True\<rparr>,
    [ReadyWait])"
proof -
  let ?w = "fst (snd (on_start EchoClientWorkload_init (echo_runtime None 0)))"
  have w: "?w = \<lparr>server_type = ActrType ''acme'' ''EchoService'', server_id = None, ready = True\<rparr>"
    by (simp add: on_start_def EchoClientWorkload_init_def echo_runtime_def Event_set_def)
  have r: "ready ?w" and s: "server_id ?w = None"
    by (simp_all add: w)
  have e: "EchoResponse_SerializeToString echo_pb2
      \<lparr>reply = ''server not available'', timestamp = 0\<rparr> =
      CHR 0x0A # CHR 0x14 # ''server not available''"
    by (simp add: echo_pb2_def encode_varint.simps char_of_eq_iff take_bit_eq_mod)
  show ?thesis
    using dispatch_degraded [OF hi_payload r s, of "echo_runtime None 0"]
    by (simp only: w e)
qed

section \<open>Startup\<close>




text \<open>
  C4: when discovery raises ActrRuntimeError in on_start of a workload whose server_id is
  None (as the constructor leaves it), the hook returns normally, changes nothing but the
  readiness flag, and server_id is still None.
\<close>

theorem on_start_discover_failed:
  "discover ctx (server_type self) = Inl (ActrRuntimeError e) \<Longrightarrow> server_id self = None \<Longrightarrow>
     fst (on_start self ctx) = Returned () \<and>
     fst (snd (on_start self ctx)) = self\<lparr>ready := True\<rparr> \<and>
     server_id (fst (snd (on_start self ctx))) = None"
  by (simp add: on_start_def Event_set_def)

theorem on_start_discover_failed_witness:
  "fst (on_start EchoClientWorkload_init (echo_runtime None 0)) = Returned () \<and>
   fst (snd (on_start EchoClientWorkload_init (echo_runtime None 0))) =
     \<lparr>server_type = ActrType ''acme'' ''EchoService'', server_id = None, ready = True\<rparr> \<and>
   server_id (fst (snd (on_start EchoClientWorkload_init (echo_runtime None 0)))) = None"
proof -
  have d: "discover (echo_runtime None 0) (server_type EchoClientWorkload_init) =
      Inl (ActrRuntimeError ''discovery error'')"
    by (simp add: echo_runtime_def)
  have n: "server_id EchoClientWorkload_init = None"
    by (simp add: EchoClientWorkload_init_def)
  show ?thesis
    using on_start_discover_failed [OF d n]
    by (simp add: EchoClientWorkload_init_def)
qed

section \<open>The echo round trip\<close>

lemma py_int_nonzero: "py_int x \<noteq> 0 \<longleftrightarrow> x \<le> - 1 \<or> 1 \<le> x"
  unfolding py_int_def by (auto simp: floor_eq_iff ceiling_eq_iff; linarith)

text \<open>
  C5 as stated fails: the timestamp is the clock truncated to whole seconds, which is 0
  when the clock reads less than one second from the epoch.
\<close>

theorem echo_timestamp_counterexample:
  "fst (echo \<lparr>message = ''hi''\<rparr> 0) = \<lparr>reply = ''Echo: hi'', timestamp = 0\<rparr>"
  by (simp add: echo_def py_int_def)

text \<open>
  C5, amended: the echo handler returns reply "Echo: " followed by the message and the
  timestamp int(time.time()), which is nonzero exactly when the clock is at least one
  second away from the epoch. After a discovery that yields the server's identity b, a
  dispatch of route "echo.EchoService.Echo" whose outbound call to b returns the
  handler's serialized response (and the codec parses what it serialized) returns that
  response, serialized.
\<close>

theorem echo_round_trip:
  assumes "discover ctx (ActrType ''acme'' ''EchoService'') = Inr b"
    and "EchoRequest_FromString pb payload = Some req"
    and "call ctx (Dest_actor b) ''echo.EchoService.Echo'' req =
           Inr (EchoResponse_SerializeToString pb (fst (echo req now)))"
    and "EchoResponse_FromString pb (EchoResponse_SerializeToString pb (fst (echo req now))) =
           Some (fst (echo req now))"
  shows "fst (echo req now) = \<lparr>reply = ''Echo: '' @ message req, timestamp = py_int now\<rparr> \<and>
         (timestamp (fst (echo req now)) \<noteq> 0) = (now \<le> - 1 \<or> 1 \<le> now) \<and>
         fst (dispatch pb (fst (snd (on_start EchoClientWorkload_init ctx)))
                ''echo.EchoService.Echo'' payload ctx) =
           Returned (EchoResponse_SerializeToString pb
             \<lparr>reply = ''Echo: '' @ message req, timestamp = py_int now\<rparr>)"
proof -
  have e: "fst (echo req now) = \<lparr>reply = ''Echo: '' @ message req, timestamp = py_int now\<rparr>"
    by (simp add: echo_def)
  have w: "fst (snd (on_start EchoClientWorkload_init ctx)) =
      \<lparr>server_type = ActrType ''acme'' ''EchoService'', server_id = Some b, ready = True\<rparr>"
    using assms(1) by (simp add: on_start_def EchoClientWorkload_init_def Event_set_def)
  have d: "fst (dispatch pb (fst (snd (on_start EchoClientWorkload_init ctx)))
                ''echo.EchoService.Echo'' payload ctx) =
           Returned (EchoResponse_SerializeToString pb (fst (echo req now)))"
    using assms(2-4) by (simp add: w dispatch_def)
  show ?thesis
    using d by (simp add: e py_int_nonzero)
qed

theorem echo_round_trip_witness:
  "fst (echo \<lparr>message = ''hi''\<rparr> 1700000000.5) =
     \<lparr>reply = ''Echo: hi'', timestamp = 1700000000\<rparr> \<and>
   fst (dispatch echo_pb2
          (fst (snd (on_start EchoClientWorkload_init
             (echo_runtime (Some (ActrId ''B'')) 1700000000.5))))
          ''echo.EchoService.Echo'' [CHR 0x0A, CHR 0x02, CHR ''h'', CHR ''i'']
          (echo_runtime (Some (ActrId ''B'')) 1700000000.5)) =
     Returned (CHR 0x0A # CHR 0x08 # ''Echo: hi'' @
               [CHR 0x10, CHR 0x80, CHR 0xE2, CHR 0xCF, CHR 0xAA, CHR 0x06])"
proof -
  let ?ctx = "echo_runtime (Some (ActrId ''B'')) 1700000000.5"
  let ?req = "\<lparr>message = ''hi''\<rparr>"
  have r: "fst (echo ?req 1700000000.5) = \<lparr>reply = ''Echo: hi'', timestamp = 1700000000\<rparr>"
    by (simp add: echo_def py_int_def)
  have s: "EchoResponse_SerializeToString echo_pb2
      \<lparr>reply = ''Echo: hi'', timestamp = 1700000000\<rparr> =
      CHR 0x0A # CHR 0x08 # ''Echo: hi'' @
        [CHR 0x10, CHR 0x80, CHR 0xE2, CHR 0xCF, CHR 0xAA, CHR 0x06]"
    by (simp add: echo_pb2_def encode_varint.simps char_of_eq_iff take_bit_eq_mod)
  have p: "EchoResponse_FromString echo_pb2
      (CHR 0x0A # CHR 0x08 # ''Echo: hi'' @
        [CHR 0x10, CHR 0x80, CHR 0xE2, CHR 0xCF, CHR 0xAA, CHR 0x06]) =
      Some \<lparr>reply = ''Echo: hi'', timestamp = 1700000000\<rparr>"
    by (simp add: echo_pb2_def read_value_def take_exact_def int64_of_def)
  have h1: "discover ?ctx (ActrType ''acme'' ''EchoService'') = Inr (ActrId ''B'')"
    by (simp add: echo_runtime_def)
  have h3: "call ?ctx (Dest_actor (ActrId ''B'')) ''echo.EchoService.Echo'' ?req =
      Inr (EchoResponse_SerializeToString echo_pb2 (fst (echo ?req 1700000000.5)))"
    by (simp add: echo_runtime_def)
  have h4: "EchoResponse_FromString echo_pb2
      (EchoResponse_SerializeToString echo_pb2 (fst (echo ?req 1700000000.5))) =
      Some (fst (echo ?req 1700000000.5))"
    by (simp only: r s p)
  have m: "''Echo: '' @ message ?req = ''Echo: hi''" and t: "py_int 1700000000.5 = 1700000000"
    by (simp_all add: py_int_def)
  show ?thesis
    using echo_round_trip [OF h1 hi_payload h3 h4]
    by (simp only: r s m t)
qed

section \<open>Readiness never reverses\<close>

lemma step_keeps_ready: "ready w \<Longrightarrow> ready (step pb w op)"
  by (cases op)
    (auto simp: on_start_def on_stop_def dispatch_def Event_set_def
      split: sum.splits option.splits exn.splits)

lemma run_keeps_ready: "ready w \<Longrightarrow> ready (run pb w ops)"
  unfolding run_def by (induction ops arbitrary: w) (simp_all add: step_keeps_ready)

text \<open>
  C6: the readiness flag of a fresh workload is not set, and once it is set after some
  sequence of on_start, on_stop and dispatch operations, it is set after every longer
  sequence: no operation clears it.
\<close>

theorem readiness_monotonic:
  "\<not> ready EchoClientWorkload_init \<and>
   (ready (run pb w ops) \<longrightarrow> ready (run pb w (ops @ ops')))"
proof -
  have "run pb w (ops @ ops') = run pb (run pb w ops) ops'"
    by (simp add: run_def)
  then show ?thesis
    by (simp add: run_keeps_ready EchoClientWorkload_init_def Event_new_def)
qed

theorem readiness_monotonic_witness:
  "\<not> ready (run echo_pb2 EchoClientWorkload_init []) \<and>
   ready (run echo_pb2 EchoClientWorkload_init [OnStart (echo_runtime None 0)]) \<and>
   ready (run echo_pb2 EchoClientWorkload_init
     ([OnStart (echo_runtime None 0)] @
      [Dispatch ''echo.EchoService.Echo'' [CHR 0x0A, CHR 0x02, CHR ''h'', CHR ''i'']
         (echo_runtime None 0),
       Dispatch ''nope'' [] (echo_runtime None 0),
       OnStop (echo_runtime None 0)]))"
proof -
  have a: "\<not> ready (run echo_pb2 EchoClientWorkload_init [])"
    by (simp add: run_def EchoClientWorkload_init_def Event_new_def)
  have b: "ready (run echo_pb2 EchoClientWorkload_init [OnStart (echo_runtime None 0)])"
    by (simp add: run_def on_start_def Event_set_def echo_runtime_def EchoClientWorkload_init_def)
  from readiness_monotonic [of echo_pb2 EchoClientWorkload_init
      "[OnStart (echo_runtime None 0)]"] a b
  show ?thesis by blast
qed

section \<open>The forwarded route key\<close>

text \<open>
  C7: the route key is forwarded verbatim. Every outbound call in the trace of a dispatch
  carries the route key the dispatch received, which is "echo.EchoService.Echo". When the
  dispatch gets as far as its outbound call (the key matched, the payload parsed,
  readiness set, the peer known), it issues exactly one, and its outcome is what
  ctx.call answers at the received route key: the exception raised there, or the
  response returned there, parsed and serialized again. So a dispatch sees of ctx.call
  only its behaviour at the received key: two contexts that agree there give the same
  dispatch.
\<close>

theorem route_key_forwarded:
  "(\<forall>dest rk req.
      Call dest rk req \<in> set (snd (snd (dispatch pb workload route_key payload ctx))) \<longrightarrow>
        rk = route_key \<and> route_key = ''echo.EchoService.Echo'') \<and>
   (route_key = ''echo.EchoService.Echo'' \<and> EchoRequest_FromString pb payload = Some request \<and>
    ready workload \<and> server_id workload = Some sid \<longrightarrow>
      snd (snd (dispatch pb workload route_key payload ctx)) =
        [ReadyWait, Call (Dest_actor sid) route_key request] \<and>
      fst (dispatch pb workload route_key payload ctx) =
        (case call ctx (Dest_actor sid) route_key request of
           Inl e \<Rightarrow> Raised e
         | Inr response_bytes \<Rightarrow>
             (case EchoResponse_FromString pb response_bytes of
                None \<Rightarrow> Raised DecodeError
              | Some response \<Rightarrow> Returned (EchoResponse_SerializeToString pb response)))) \<and>
   ((\<forall>dest req. call ctx dest route_key req = call ctx' dest route_key req) \<longrightarrow>
      dispatch pb workload route_key payload ctx = dispatch pb workload route_key payload ctx')"
proof (intro conjI allI impI)
  fix dest rk req
  assume "Call dest rk req \<in> set (snd (snd (dispatch pb workload route_key payload ctx)))"
  then show "rk = route_key" and "route_key = ''echo.EchoService.Echo''"
    by (auto simp: dispatch_def split: if_splits option.splits sum.splits)
next
  assume a: "route_key = ''echo.EchoService.Echo'' \<and>
    EchoRequest_FromString pb payload = Some request \<and> ready workload \<and>
    server_id workload = Some sid"
  then show "snd (snd (dispatch pb workload route_key payload ctx)) =
      [ReadyWait, Call (Dest_actor sid) route_key request]"
    by (simp add: dispatch_def split: sum.split option.split)
  from a show "fst (dispatch pb workload route_key payload ctx) =
      (case call ctx (Dest_actor sid) route_key request of
         Inl e \<Rightarrow> Raised e
       | Inr response_bytes \<Rightarrow>
           (case EchoResponse_FromString pb response_bytes of
              None \<Rightarrow> Raised DecodeError
            | Some response \<Rightarrow> Returned (EchoResponse_SerializeToString pb response)))"
    by (simp add: dispatch_def split: sum.split option.split)
next
  assume "\<forall>dest req. call ctx dest route_key req = call ctx' dest route_key req"
  then show "dispatch pb workload route_key payload ctx =
      dispatch pb workload route_key payload ctx'"
    by (cases "route_key = ''echo.EchoService.Echo''")
      (simp_all add: dispatch_def split: option.split)
qed

text \<open>
  The concrete run: the runtime answers "unrecognized route" at every key but
  "echo.EchoService.Echo", so the server's response below is the answer at the received
  key; a second context that differs from the runtime at every other key gives the same
  dispatch.
\<close>

theorem route_key_forwarded_witness:
  "dispatch echo_pb2
      \<lparr>server_type = ActrType ''acme'' ''EchoService'', server_id = Some (ActrId ''B''),
         ready = True\<rparr>
      ''echo.EchoService.Echo'' [CHR 0x0A, CHR 0x02, CHR ''h'', CHR ''i'']
      (echo_runtime (Some (ActrId ''B'')) 1) =
     (Returned (CHR 0x0A # CHR 0x08 # ''Echo: hi'' @ [CHR 0x10, CHR 0x01]),
      \<lparr>server_type = ActrType ''acme'' ''EchoService'', server_id = Some (ActrId ''B''),
         ready = True\<rparr>,
      [ReadyWait, Call (Dest_actor (ActrId ''B'')) ''echo.EchoService.Echo''
         \<lparr>message = ''hi''\<rparr>]) \<and>
   dispatch echo_pb2
      \<lparr>server_type = ActrType ''acme'' ''EchoService'', server_id = Some (ActrId ''B''),
         ready = True\<rparr>
      ''echo.EchoService.Echo'' [CHR 0x0A, CHR 0x02, CHR ''h'', CHR ''i'']
      \<lparr>discover = discover (echo_runtime (Some (ActrId ''B'')) 1),
         call = (\<lambda>dest route_key request.
           if route_key = ''echo.EchoService.Echo''
           then call (echo_runtime (Some (ActrId ''B'')) 1) dest route_key request
           else Inr ''elsewhere'')\<rparr> =
     dispatch echo_pb2
      \<lparr>server_type = ActrType ''acme'' ''EchoService'', server_id = Some (ActrId ''B''),
         ready = True\<rparr>
      ''echo.EchoService.Echo'' [CHR 0x0A, CHR 0x02, CHR ''h'', CHR ''i'']
      (echo_runtime (Some (ActrId ''B'')) 1)"
proof -
  let ?w = "\<lparr>server_type = ActrType ''acme'' ''EchoService'',
      server_id = Some (ActrId ''B''), ready = True\<rparr>"
  let ?ctx = "echo_runtime (Some (ActrId ''B'')) 1"
  let ?ctx' = "\<lparr>discover = discover ?ctx,
      call = (\<lambda>dest route_key request.
        if route_key = ''echo.EchoService.Echo'' then call ?ctx dest route_key request
        else Inr ''elsewhere'')\<rparr>"
  let ?payload = "[CHR 0x0A, CHR 0x02, CHR ''h'', CHR ''i'']"
  let ?out = "CHR 0x0A # CHR 0x08 # ''Echo: hi'' @ [CHR 0x10, CHR 0x01]"
  note fwd = route_key_forwarded [of echo_pb2 ?w "''echo.EchoService.Echo''" ?payload
      ?ctx "\<lparr>message = ''hi''\<rparr>" "ActrId ''B''" ?ctx']
  have pre: "''echo.EchoService.Echo'' = ''echo.EchoService.Echo'' \<and>
      EchoRequest_FromString echo_pb2 ?payload = Some \<lparr>message = ''hi''\<rparr> \<and>
      ready ?w \<and> server_id ?w = Some (ActrId ''B'')"
    by (simp add: hi_payload)
  have c: "call ?ctx (Dest_actor (ActrId ''B'')) ''echo.EchoService.Echo''
      \<lparr>message = ''hi''\<rparr> = Inr ?out"
    by (simp add: echo_runtime_def echo_def py_int_def echo_pb2_def encode_varint.simps
        char_of_eq_iff take_bit_eq_mod)
  have p: "EchoResponse_FromString echo_pb2 ?out =
      Some \<lparr>reply = ''Echo: hi'', timestamp = 1\<rparr>"
    by (simp add: echo_pb2_def read_value_def take_exact_def int64_of_def)
  have s: "EchoResponse_SerializeToString echo_pb2 \<lparr>reply = ''Echo: hi'', timestamp = 1\<rparr> =
      ?out"
    by (simp add: echo_pb2_def encode_varint.simps char_of_eq_iff take_bit_eq_mod)
  from fwd pre have
    t: "snd (snd (dispatch echo_pb2 ?w ''echo.EchoService.Echo'' ?payload ?ctx)) =
        [ReadyWait, Call (Dest_actor (ActrId ''B'')) ''echo.EchoService.Echo''
           \<lparr>message = ''hi''\<rparr>]"
    and o: "fst (dispatch echo_pb2 ?w ''echo.EchoService.Echo'' ?payload ?ctx) =
        (case call ?ctx (Dest_actor (ActrId ''B'')) ''echo.EchoService.Echo''
                \<lparr>message = ''hi''\<rparr> of
           Inl e \<Rightarrow> Raised e
         | Inr response_bytes \<Rightarrow>
             (case EchoResponse_FromString echo_pb2 response_bytes of
                None \<Rightarrow> Raised DecodeError
              | Some response \<Rightarrow>
                  Returned (EchoResponse_SerializeToString echo_pb2 response)))"
    by blast+
  from o have o': "fst (dispatch echo_pb2 ?w ''echo.EchoService.Echo'' ?payload ?ctx) =
      Returned ?out"
    by (simp only: c p s sum.case option.case)
  have w: "fst (snd (dispatch echo_pb2 ?w ''echo.EchoService.Echo'' ?payload ?ctx)) = ?w"
    by (simp add: dispatch_def split: option.split sum.split)
  have first: "dispatch echo_pb2 ?w ''echo.EchoService.Echo'' ?payload ?ctx =
      (Returned ?out, ?w,
       [ReadyWait, Call (Dest_actor (ActrId ''B'')) ''echo.EchoService.Echo''
          \<lparr>message = ''hi''\<rparr>])"
    using o' w t by (simp only: prod_eq_iff fst_conv snd_conv)
  have agree: "\<forall>dest req. call ?ctx dest ''echo.EchoService.Echo'' req =
      call ?ctx' dest ''echo.EchoService.Echo'' req"
    by simp
  from fwd agree have second:
    "dispatch echo_pb2 ?w ''echo.EchoService.Echo'' ?payload ?ctx =
     dispatch echo_pb2 ?w ''echo.EchoService.Echo'' ?payload ?ctx'"
    by blast
  from first second show ?thesis by simp
qed

section \<open>The lines that replace_after_marker changes\<close>









section \<open>main writes once, at the end\<close>

















section \<open>Version normalization\<close>

lemma normalized_version_v: "normalized_version (str ''v'' @ s) = normalized_version s"
  by (simp add: normalized_version_def lstrip_chars_def str_def)

text \<open>
  C10: the version is the argument without its leading 'v' characters and the tag is "v"
  followed by the version, so the arguments s and "v" + s give the same version, tag,
  asset names and download URLs, and the same run of main; "vv1.2.3", "v1.2.3" and
  "1.2.3" all give version "1.2.3" and tag "v1.2.3".
\<close>

theorem version_normalization:
  "normalized_version s = dropWhile (\<lambda>c. c = 118) s \<and>
   takeWhile (\<lambda>c. c = 118) (normalized_version s) = [] \<and>
   normalized_version (str ''v'' @ s) = normalized_version s \<and>
   release_tag (normalized_version (str ''v'' @ s)) = str ''v'' @ normalized_version s \<and>
   asset_name (normalized_version (str ''v'' @ s)) target =
     asset_name (normalized_version s) target \<and>
   asset_url repo (release_tag (normalized_version (str ''v'' @ s)))
       (asset_name (normalized_version (str ''v'' @ s)) target) =
     asset_url repo (release_tag (normalized_version s))
       (asset_name (normalized_version s) target) \<and>
   main subn fs (args\<lparr>arg_version := str ''v'' @ s\<rparr>) = main subn fs (args\<lparr>arg_version := s\<rparr>) \<and>
   normalized_version (str ''vv1.2.3'') = str ''1.2.3'' \<and>
   normalized_version (str ''v1.2.3'') = str ''1.2.3'' \<and>
   normalized_version (str ''1.2.3'') = str ''1.2.3'' \<and>
   release_tag (str ''1.2.3'') = str ''v1.2.3''"
proof -
  have a: "normalized_version s = dropWhile (\<lambda>c. c = 118) s"
    by (simp add: normalized_version_def lstrip_chars_def str_def)
  have b: "takeWhile (\<lambda>c. c = 118) (dropWhile (\<lambda>c. c = 118) s) = []"
    by (induction s) simp_all
  have c: "main subn fs (args\<lparr>arg_version := str ''v'' @ s\<rparr>) =
      main subn fs (args\<lparr>arg_version := s\<rparr>)"
    by (simp add: main_def Let_def normalized_version_v cong: sum.case_cong)
  have d: "normalized_version (str ''vv1.2.3'') = str ''1.2.3''"
    "normalized_version (str ''v1.2.3'') = str ''1.2.3''"
    "normalized_version (str ''1.2.3'') = str ''1.2.3''"
    "release_tag (str ''1.2.3'') = str ''v1.2.3''"
    by (simp_all add: normalized_version_def lstrip_chars_def release_tag_def str_def)
  show ?thesis
    using a b c d by (simp add: normalized_version_v release_tag_def)
qed

end
